theory Spec2Isabelle
  imports Complex_Main
begin

section \<open>Python values shared by the modules\<close>

text \<open>
  Exceptions that the modelled functions can raise. \<open>CvError\<close> is the exception of the
  OpenCV binding when a drawing call receives \<open>None\<close> instead of an image.
\<close>

datatype error =
    FileNotFoundError
  | RuntimeError string
  | ZeroDivisionError
  | AttributeError
  | IndexError
  | CvError

text \<open>
  A \<open>pathlib.Path\<close>, split the way the code reads it: the directory (\<open>.parent\<close>), the
  file name without its last suffix (\<open>.stem\<close>) and that suffix. The arguments annotated
  \<open>str | Path\<close> are either a plain string holding the path or a \<open>Path\<close> object.
\<close>

datatype path = Path (parent: string) (stem: string) (suffix: string)

datatype pathlike = Str path | PathObj path

fun path_of :: "pathlike \<Rightarrow> path" where
  "path_of (Str p) = p"
| "path_of (PathObj p) = p"

text \<open>Floats are modelled as reals; \<open>int(x)\<close> on a float truncates towards zero.\<close>

definition py_int :: "real \<Rightarrow> int" where
  "py_int r = (if 0 \<le> r then \<lfloor>r\<rfloor> else \<lceil>r\<rceil>)"

section \<open>The angle helper (feature\_extractor.py and renderer.py)\<close>

text \<open>
  \<open>math.atan2(y, x)\<close> of the standard library, the angle of the vector \<open>(x, y)\<close>, and
  \<open>math.degrees\<close>, over the reals. The float function has the closed range
  \<open>[-pi, pi]\<close>: it returns \<open>-pi\<close> for \<open>x < 0\<close> when \<open>y\<close> is \<open>-0.0\<close> or a negative
  number that small that the result rounds to \<open>-pi\<close>. The real-valued function below
  never reaches \<open>-pi\<close>, so only the closed bounds are stated of it.
\<close>

definition atan2 :: "real \<Rightarrow> real \<Rightarrow> real" where
  "atan2 y x =
     (if 0 < x then arctan (y / x)
      else if x < 0 then (if 0 \<le> y then arctan (y / x) + pi else arctan (y / x) - pi)
      else if 0 < y then pi / 2
      else if y < 0 then - (pi / 2)
      else 0)"

definition degrees :: "real \<Rightarrow> real" where
  "degrees r = r * 180 / pi"

type_synonym point = "real \<times> real"

text \<open>
  \<open>_angle(a, b, c)\<close>, the same text in both modules. It reads only the components
  \<open>[0]\<close> and \<open>[1]\<close> of its arguments.
\<close>

definition angle :: "point \<Rightarrow> point \<Rightarrow> point \<Rightarrow> real" where
  "angle a b c =
     (let ang = degrees (atan2 (snd c - snd b) (fst c - fst b)
                          - atan2 (snd a - snd b) (fst a - fst b))
      in \<bar>if ang < 180 then ang else 360 - ang\<bar>)"

section \<open>Frame sampler (video\_extractor.py)\<close>

text \<open>
  What \<open>extract_frames\<close> sees of its video: whether the file exists, whether
  \<open>cv2.VideoCapture\<close> opens it, the rate \<open>cap.get(CAP_PROP_FPS)\<close> reports, and the
  frames that successive \<open>cap.read()\<close> calls deliver before one returns \<open>ret = False\<close>.
\<close>

record 'f video =
  path_exists :: bool
  is_opened :: bool
  cap_fps :: real
  stream :: "'f list"

text \<open>
  The effects on the output directory, in the order they happen: the removal of the old
  \<open>*.jpg\<close> files (with \<open>overwrite\<close>) and each \<open>cv2.imwrite(path, frame)\<close>.
\<close>

datatype 'f fs_op = Unlink_jpgs string | Imwrite path 'f

text \<open>The name \<open>output_dir / f"frame_{saved_idx:05d}.jpg"\<close>.\<close>

fun digits :: "nat \<Rightarrow> string" where
  "digits n =
     (if n < 10 then [''0123456789'' ! n]
      else digits (n div 10) @ [''0123456789'' ! (n mod 10)])"

definition fmt_05d :: "nat \<Rightarrow> string" where
  "fmt_05d n = replicate (5 - length (digits n)) (CHR ''0'') @ digits n"

definition frame_path :: "string \<Rightarrow> nat \<Rightarrow> path" where
  "frame_path output_dir saved_idx = Path output_dir (''frame_'' @ fmt_05d saved_idx) ''.jpg''"

text \<open>
  The \<open>while True\<close> loop. Its state is the capture (the frames not yet read), \<open>idx\<close>,
  \<open>saved_idx\<close>, the list \<open>saved\<close> and the effects so far; \<open>cap.read()\<close> takes the next
  frame, and the loop ends when none is left.
\<close>

fun read_loop ::
  "string \<Rightarrow> nat \<Rightarrow> 'f list \<Rightarrow> nat \<Rightarrow> nat \<Rightarrow> path list \<Rightarrow> 'f fs_op list
     \<Rightarrow> path list \<times> 'f list \<times> 'f fs_op list" where
  "read_loop output_dir stride [] idx saved_idx saved ops = (saved, [], ops)"
| "read_loop output_dir stride (frame # cap) idx saved_idx saved ops =
     (if idx mod stride = 0
      then let fpath = frame_path output_dir saved_idx
           in read_loop output_dir stride cap (idx + 1) (saved_idx + 1)
                (saved @ [fpath]) (ops @ [Imwrite fpath frame])
      else read_loop output_dir stride cap (idx + 1) saved_idx saved ops)"

text \<open>
  \<open>extract_frames(video_path, output_dir, fps, overwrite)\<close>. The result is the returned
  manifest or the exception, the capture as it is left (the frames never read) and the
  effects on the output directory. \<open>native_fps // fps\<close> divides a float by the integer
  \<open>fps\<close> and raises \<open>ZeroDivisionError\<close> when \<open>fps\<close> is 0. The calls that prepare the
  output directory (\<open>expanduser\<close>, \<open>resolve\<close> and \<open>mkdir\<close> at the start, \<open>unlink\<close> with
  \<open>overwrite\<close>) are taken to succeed here. Each of them can raise an \<open>OSError\<close> of the
  file system, always before the capture is opened, so nothing below says that the
  errors of this definition are the only ones.
\<close>

definition extract_frames ::
  "'f video \<Rightarrow> string \<Rightarrow> int \<Rightarrow> bool \<Rightarrow> (error + path list) \<times> 'f list \<times> 'f fs_op list" where
  "extract_frames v output_dir fps overwrite =
     (if \<not> path_exists v then (Inl FileNotFoundError, stream v, [])
      else
        let ops = (if overwrite then [Unlink_jpgs output_dir] else [])
        in if \<not> is_opened v then (Inl (RuntimeError ''Cannot open video''), stream v, ops)
           else
             let native_fps = cap_fps v
             in if native_fps = 0
                then (Inl (RuntimeError ''Source FPS reported as 0''), stream v, ops)
                else if fps = 0 then (Inl ZeroDivisionError, stream v, ops)
                else
                  let stride = nat (max \<lfloor>native_fps / of_int fps\<rfloor> 1)
                  in case read_loop output_dir stride (stream v) 0 0 [] ops of
                       (saved, cap, ops') \<Rightarrow> (Inr saved, cap, ops'))"

text \<open>Example videos: ten frames at 30 frames per second, and a source that reports rate 0.\<close>

definition clip10 :: "nat video" where
  "clip10 = \<lparr>path_exists = True, is_opened = True, cap_fps = 30,
              stream = [0, 1, 2, 3, 4, 5, 6, 7, 8, 9]\<rparr>"

definition zero_rate_clip :: "nat video" where
  "zero_rate_clip = \<lparr>path_exists = True, is_opened = True, cap_fps = 0, stream = [0, 1, 2]\<rparr>"

section \<open>Landmark records\<close>

text \<open>
  One landmark as the pose stage stores it: the keys \<open>"x"\<close>, \<open>"y"\<close>, \<open>"z"\<close> and \<open>"vis"\<close>.
  A landmark record is the dictionary that \<open>json.load\<close> returns: the point indices (the
  key \<open>str(i)\<close> is modelled by \<open>i\<close>) with their landmarks, in the order of the file.
  \<open>lm[str(i)]\<close> is \<open>map_of lm i\<close>, with \<open>None\<close> for the \<open>KeyError\<close>.
\<close>

record landmark =
  lm_x :: real
  lm_y :: real
  lm_z :: real
  lm_vis :: real

type_synonym lm_record = "(nat \<times> landmark) list"

section \<open>Landmark extractor (pose\_estimator.py)\<close>




section \<open>Feature calculator (feature\_extractor.py)\<close>

record feature_row =
  frame :: string
  r_elbow_deg :: real
  r_knee_deg :: real
  trunk_deg :: real

text \<open>The inner function \<open>pt(i)\<close>; \<open>None\<close> stands for its \<open>KeyError\<close>.\<close>

definition pt :: "lm_record \<Rightarrow> nat \<Rightarrow> (real \<times> real \<times> real) option" where
  "pt lm i = (case map_of lm i of None \<Rightarrow> None | Some l \<Rightarrow> Some (lm_x l, lm_y l, lm_z l))"

definition xy :: "real \<times> real \<times> real \<Rightarrow> point" where
  "xy p = (fst p, fst (snd p))"

text \<open>
  The body of the \<open>try\<close> block, in its order of evaluation: the three values, or \<open>None\<close>
  when a \<open>KeyError\<close> sends control to the \<open>except\<close> branch.
\<close>

definition try_angles :: "lm_record \<Rightarrow> (real \<times> real \<times> real) option" where
  "try_angles lm =
     (case pt lm 12 of None \<Rightarrow> None | Some p12 \<Rightarrow>
      case pt lm 14 of None \<Rightarrow> None | Some p14 \<Rightarrow>
      case pt lm 16 of None \<Rightarrow> None | Some p16 \<Rightarrow>
      let r_elbow = angle (xy p12) (xy p14) (xy p16) in
      case pt lm 24 of None \<Rightarrow> None | Some p24 \<Rightarrow>
      case pt lm 26 of None \<Rightarrow> None | Some p26 \<Rightarrow>
      case pt lm 28 of None \<Rightarrow> None | Some p28 \<Rightarrow>
      let r_knee = angle (xy p24) (xy p26) (xy p28) in
      case pt lm 12 of None \<Rightarrow> None | Some shoulder \<Rightarrow>
      case pt lm 24 of None \<Rightarrow> None | Some hip \<Rightarrow>
      let trunk = degrees (atan2 (snd (xy shoulder) - snd (xy hip))
                                 (fst (xy shoulder) - fst (xy hip)))
      in Some (r_elbow, r_knee, trunk))"

text \<open>
  The loop over \<open>json_paths\<close>. \<open>records\<close> are the record files that \<open>open\<close> and
  \<open>json.load\<close> find. In the \<open>except\<close> branch the argument \<open>jpath.name\<close> of the log call is
  evaluated before \<open>continue\<close>: a \<open>Path\<close> has the attribute, a \<open>str\<close> has not.
\<close>

fun feature_loop ::
  "(path \<rightharpoonup> lm_record) \<Rightarrow> pathlike list \<Rightarrow> feature_row list \<Rightarrow> error + feature_row list" where
  "feature_loop records [] rows = Inr rows"
| "feature_loop records (jpath # rest) rows =
     (case records (path_of jpath) of
        None \<Rightarrow> Inl FileNotFoundError
      | Some lm \<Rightarrow>
          (case try_angles lm of
             None \<Rightarrow>
               (case jpath of
                  PathObj p \<Rightarrow> feature_loop records rest rows
                | Str s \<Rightarrow> Inl AttributeError)
           | Some (r_elbow, r_knee, trunk) \<Rightarrow>
               feature_loop records rest
                 (rows @ [\<lparr>frame = stem (path_of jpath), r_elbow_deg = r_elbow,
                           r_knee_deg = r_knee, trunk_deg = trunk\<rparr>])))"

text \<open>
  \<open>extract_biomechanics(json_paths, csv_out)\<close>: the returned table or the exception, and
  the table files on disk, to which \<open>df.to_csv\<close> adds the one at \<open>csv_out\<close>.
\<close>

definition extract_biomechanics ::
  "(path \<rightharpoonup> lm_record) \<Rightarrow> pathlike list \<Rightarrow> path \<Rightarrow> (path \<rightharpoonup> feature_row list)
     \<Rightarrow> (error + feature_row list) \<times> (path \<rightharpoonup> feature_row list)" where
  "extract_biomechanics records json_paths csv_out tables =
     (case feature_loop records json_paths [] of
        Inl e \<Rightarrow> (Inl e, tables)
      | Inr rows \<Rightarrow> (Inr rows, tables(csv_out \<mapsto> rows)))"

text \<open>
  Example records: an upright pose with a straight right arm and leg, and a record
  without the right shoulder (index 12).
\<close>

definition upright :: lm_record where
  "upright =
     [(12, \<lparr>lm_x = 1 / 2, lm_y = 1 / 5, lm_z = 0, lm_vis = 1\<rparr>),
      (14, \<lparr>lm_x = 1 / 2, lm_y = 2 / 5, lm_z = 0, lm_vis = 1\<rparr>),
      (16, \<lparr>lm_x = 1 / 2, lm_y = 3 / 5, lm_z = 0, lm_vis = 1\<rparr>),
      (24, \<lparr>lm_x = 1 / 2, lm_y = 1 / 2, lm_z = 0, lm_vis = 1\<rparr>),
      (26, \<lparr>lm_x = 1 / 2, lm_y = 7 / 10, lm_z = 0, lm_vis = 1\<rparr>),
      (28, \<lparr>lm_x = 1 / 2, lm_y = 9 / 10, lm_z = 0, lm_vis = 1\<rparr>)]"

definition no_shoulder :: lm_record where
  "no_shoulder = tl upright"

definition rec_path :: "string \<Rightarrow> path" where
  "rec_path s = Path ''keypoints'' s ''.json''"

definition upright_row :: feature_row where
  "upright_row = \<lparr>frame = ''frame_00000'', r_elbow_deg = 180, r_knee_deg = 180, trunk_deg = - 90\<rparr>"

definition features_csv :: path where
  "features_csv = Path ''analysis'' ''clip_features'' ''.csv''"





section \<open>Overlay renderer (renderer.py)\<close>

text \<open>
  An image as the renderer reads it: its shape (\<open>h, w = sample.shape[:2]\<close>) and its
  pixels, which stay abstract. Pixel positions are pairs of integers, colours are BGR
  triples.
\<close>

record 'a image =
  img_h :: nat
  img_w :: nat
  pixels :: 'a

type_synonym pixel = "int \<times> int"

type_synonym color = "nat \<times> nat \<times> nat"

definition JOINT_R :: int where "JOINT_R = 6"

definition LIMB_THICK :: nat where "LIMB_THICK = 3"

definition TRAIL_LEN :: nat where "TRAIL_LEN = 15"

definition TRAIL_COLOR :: color where "TRAIL_COLOR = (255, 215, 0)"

definition CONNECTIONS :: "(nat \<times> nat) list" where
  "CONNECTIONS =
     [(11, 13), (13, 15), (12, 14), (14, 16),
      (11, 12), (11, 23), (12, 24),
      (23, 25), (25, 27), (24, 26), (26, 28)]"

definition LEFT :: "nat set" where "LEFT = {11, 13, 15, 23, 25, 27}"

definition RIGHT :: "nat set" where "RIGHT = {12, 14, 16, 24, 26, 28}"

definition COLOR_LEFT :: color where "COLOR_LEFT = (0, 80, 255)"

definition COLOR_RIGHT :: color where "COLOR_RIGHT = (255, 80, 0)"

definition COLOR_TORSO :: color where "COLOR_TORSO = (60, 255, 60)"

definition color_for_joint :: "nat \<Rightarrow> color" where
  "color_for_joint idx =
     (if idx \<in> LEFT then COLOR_LEFT else if idx \<in> RIGHT then COLOR_RIGHT else COLOR_TORSO)"

text \<open>
  The drawing calls on one frame, in the order they are made. A text is either the
  elbow read-out \<open>f"Elbow {ang:.0f}"\<close>, kept with its angle, or the counter
  \<open>f"Frame {idx+1}/{len(frame_paths)}"\<close>. \<open>_draw_text\<close> paints the background box, whose
  size comes from \<open>cv2.getTextSize\<close>, and the text: one \<open>Text\<close> call here.
\<close>

datatype label = Elbow real | Frame_count nat nat

datatype draw =
    Circle pixel int color
  | Line pixel pixel color nat
  | Rectangle pixel pixel color
  | Text label pixel color

definition draw_text :: "label \<Rightarrow> pixel \<Rightarrow> color \<Rightarrow> draw list" where
  "draw_text txt pos color = [Text txt pos color]"

text \<open>
  The dictionary \<open>pts\<close>: the landmarks whose \<open>vis\<close> exceeds 0.3, projected to pixels,
  in the order of the record.
\<close>

definition visible_pts :: "lm_record \<Rightarrow> nat \<Rightarrow> nat \<Rightarrow> (nat \<times> pixel) list" where
  "visible_pts lm w h =
     map (\<lambda>(i, l). (i, (py_int (lm_x l * real w), py_int (lm_y l * real h))))
       (filter (\<lambda>(i, l). lm_vis l > 3 / 10) lm)"

text \<open>\<open>trail.append\<close> on a \<open>deque(maxlen = TRAIL_LEN)\<close>: the oldest entry leaves when full.\<close>

definition trail_append :: "pixel list \<Rightarrow> pixel \<Rightarrow> pixel list" where
  "trail_append trail p = (let t = trail @ [p] in drop (length t - TRAIL_LEN) t)"

definition trail_ops :: "pixel list \<Rightarrow> draw list" where
  "trail_ops trail =
     map (\<lambda>(t, p). Circle p (py_int (real_of_int JOINT_R * (1 - real t / real (length trail))))
                     TRAIL_COLOR)
       (enumerate 0 (rev trail))"

definition joint_ops :: "(nat \<times> pixel) list \<Rightarrow> draw list" where
  "joint_ops pts = map (\<lambda>(pid, p). Circle p JOINT_R (color_for_joint pid)) pts"

definition limb_ops :: "(nat \<times> pixel) list \<Rightarrow> draw list" where
  "limb_ops pts =
     concat (map (\<lambda>(a, b). case map_of pts a of
                               None \<Rightarrow> []
                             | Some pa \<Rightarrow> (case map_of pts b of
                                             None \<Rightarrow> []
                                           | Some pb \<Rightarrow> [Line pa pb (180, 180, 180) LIMB_THICK]))
                 CONNECTIONS)"

definition as_point :: "pixel \<Rightarrow> point" where
  "as_point p = (real_of_int (fst p), real_of_int (snd p))"

text \<open>The live metric: drawn when \<open>{12, 14, 16}.issubset(pts)\<close>.\<close>

definition elbow_ops :: "(nat \<times> pixel) list \<Rightarrow> draw list" where
  "elbow_ops pts =
     (case map_of pts 12 of None \<Rightarrow> [] | Some p12 \<Rightarrow>
      case map_of pts 14 of None \<Rightarrow> [] | Some p14 \<Rightarrow>
      case map_of pts 16 of None \<Rightarrow> [] | Some p16 \<Rightarrow>
        let ang = angle (as_point p12) (as_point p14) (as_point p16);
            color = (if ang < 170 then (0, 255, 0) else (0, 0, 255))
        in draw_text (Elbow ang) (30, 40) color)"

definition bar_ops :: "nat \<Rightarrow> nat \<Rightarrow> nat \<Rightarrow> nat \<Rightarrow> draw list" where
  "bar_ops w h idx n =
     Rectangle (0, int h - 60) (int w, int h) (0, 0, 0)
       # draw_text (Frame_count (idx + 1) n) (20, int h - 20) (255, 255, 255)"

text \<open>
  The body of the loop for one frame and its record, once both are loaded: the drawing
  calls made on the frame and the trail buffer afterwards.
\<close>

definition render_frame ::
  "nat \<Rightarrow> nat \<Rightarrow> nat \<Rightarrow> nat \<Rightarrow> lm_record \<Rightarrow> pixel list \<Rightarrow> draw list \<times> pixel list" where
  "render_frame w h idx n lm trail =
     (let pts = visible_pts lm w h;
          trail' = (case map_of pts 16 of None \<Rightarrow> trail | Some p \<Rightarrow> trail_append trail p)
      in (trail_ops trail' @ joint_ops pts @ limb_ops pts @ elbow_ops pts @ bar_ops w h idx n,
          trail'))"

text \<open>
  The loop over \<open>zip(frame_paths, json_paths)\<close>. \<open>imread\<close> gives the image at a path or
  \<open>None\<close>; \<open>records\<close> are the record files. The state is \<open>idx\<close>, the trail and the frames
  handed to \<open>vw.write\<close> so far, each as the image read and the drawing calls made on it.
  A missing record file raises in \<open>open\<close>; an unreadable image makes \<open>frame\<close> \<open>None\<close>,
  and the first drawing call on it (the bar at the latest) raises.
\<close>

fun render_loop ::
  "(path \<Rightarrow> 'a image option) \<Rightarrow> (path \<rightharpoonup> lm_record) \<Rightarrow> nat \<Rightarrow> nat \<Rightarrow> nat \<Rightarrow> nat
     \<Rightarrow> (path \<times> path) list \<Rightarrow> pixel list \<Rightarrow> ('a image \<times> draw list) list
     \<Rightarrow> (error + unit) \<times> ('a image \<times> draw list) list" where
  "render_loop imread records w h n idx [] trail video = (Inr (), video)"
| "render_loop imread records w h n idx ((fpath, jpath) # rest) trail video =
     (case records jpath of
        None \<Rightarrow> (Inl FileNotFoundError, video)
      | Some lm \<Rightarrow>
          (case imread fpath of
             None \<Rightarrow> (Inl CvError, video)
           | Some img \<Rightarrow>
               (case render_frame w h idx n lm trail of
                  (ops, trail') \<Rightarrow>
                    render_loop imread records w h n (idx + 1) rest trail'
                      (video @ [(img, ops)]))))"

text \<open>
  \<open>render_skeleton_video(frame_paths, json_paths, output_mp4, fps)\<close>: the result and the
  frames written to the output video. \<open>frame_paths[0]\<close> raises \<open>IndexError\<close> on an empty
  manifest, and \<open>sample.shape\<close> raises \<open>AttributeError\<close> when the first image is
  unreadable. \<open>output_mp4\<close> and \<open>fps\<close> only go to the writer's constructor. Preparing the
  output path (\<open>expanduser\<close>, \<open>resolve\<close>, \<open>mkdir\<close>) is taken to succeed, and the frames
  written are the frames passed to \<open>vw.write\<close>, whatever the encoder does with them.
\<close>

definition render_skeleton_video ::
  "(path \<Rightarrow> 'a image option) \<Rightarrow> (path \<rightharpoonup> lm_record) \<Rightarrow> path list \<Rightarrow> path list
     \<Rightarrow> (error + unit) \<times> ('a image \<times> draw list) list" where
  "render_skeleton_video imread records frame_paths json_paths =
     (case frame_paths of
        [] \<Rightarrow> (Inl IndexError, [])
      | first # _ \<Rightarrow>
          (case imread first of
             None \<Rightarrow> (Inl AttributeError, [])
           | Some sample \<Rightarrow>
               render_loop imread records (img_w sample) (img_h sample) (length frame_paths) 0
                 (zip frame_paths json_paths) [] []))"

text \<open>
  An example call of the renderer: two frames, every image readable (10 by 10 pixels),
  with a record for each frame (the second without the right shoulder) or a record for
  the first frame only.
\<close>

definition blank :: "unit image" where
  "blank = \<lparr>img_h = 10, img_w = 10, pixels = ()\<rparr>"

definition imread_blank :: "path \<Rightarrow> unit image option" where
  "imread_blank p = Some blank"

definition imread_none :: "path \<Rightarrow> unit image option" where
  "imread_none p = None"

definition two_frames :: "path list" where
  "two_frames = [Path ''frames'' ''frame_00000'' ''.jpg'', Path ''frames'' ''frame_00001'' ''.jpg'']"


definition one_record :: "path list" where
  "one_record = [rec_path ''frame_00000'']"

definition records2 :: "path \<rightharpoonup> lm_record" where
  "records2 = [rec_path ''frame_00000'' \<mapsto> upright, rec_path ''frame_00001'' \<mapsto> no_shoulder]"

section \<open>Pose viewer (visualizer.py)\<close>

text \<open>
  The connection pairs of the viewer, \<open>_CONNECTIONS\<close> of visualizer.py (the renderer has
  a shorter list of the same name).
\<close>

definition CONNECTIONS_3d :: "(nat \<times> nat) list" where
  "CONNECTIONS_3d =
     [(0, 1), (1, 2), (2, 3), (3, 7),
      (0, 4), (4, 5), (5, 6), (6, 8),
      (9, 10),
      (11, 13), (13, 15),
      (12, 14), (14, 16),
      (11, 12), (11, 23), (12, 24),
      (23, 25), (25, 27),
      (24, 26), (26, 28)]"

text \<open>
  \<open>_load_landmarks(json_path)\<close>: \<open>open\<close> raises when the file is missing; then one entry
  per index of \<open>range(33)\<close> in each of the three lists, \<open>None\<close> where \<open>data.get(str(i))\<close>
  finds nothing, with \<open>y\<close> negated.
\<close>

type_synonym coords = "real option list \<times> real option list \<times> real option list"

definition load_landmarks :: "(path \<rightharpoonup> lm_record) \<Rightarrow> path \<Rightarrow> error + coords" where
  "load_landmarks records jpath =
     (case records jpath of
        None \<Rightarrow> Inl FileNotFoundError
      | Some data \<Rightarrow>
          Inr (map (\<lambda>i. map_option lm_x (map_of data i)) [0..<33],
               map (\<lambda>i. map_option (\<lambda>pt. - lm_y pt) (map_of data i)) [0..<33],
               map (\<lambda>i. map_option lm_z (map_of data i)) [0..<33]))"

text \<open>
  The loop of \<open>_skeleton_trace\<close> over the connection pairs. Indexing a list beyond its
  end raises \<open>IndexError\<close>; \<open>xs[a] is None or xs[b] is None\<close> reads \<open>xs[b]\<close> only when
  \<open>xs[a]\<close> is a number.
\<close>

fun trace_loop ::
  "real option list \<Rightarrow> real option list \<Rightarrow> real option list \<Rightarrow> (nat \<times> nat) list \<Rightarrow> coords
     \<Rightarrow> error + coords" where
  "trace_loop xs ys zs [] acc = Inr acc"
| "trace_loop xs ys zs ((a, b) # rest) (lines_x, lines_y, lines_z) =
     (if length xs \<le> a then Inl IndexError
      else if xs ! a = None then trace_loop xs ys zs rest (lines_x, lines_y, lines_z)
      else if length xs \<le> b then Inl IndexError
      else if xs ! b = None then trace_loop xs ys zs rest (lines_x, lines_y, lines_z)
      else if length ys \<le> a \<or> length ys \<le> b then Inl IndexError
      else if length zs \<le> a \<or> length zs \<le> b then Inl IndexError
      else trace_loop xs ys zs rest
             (lines_x @ [xs ! a, xs ! b, None],
              lines_y @ [ys ! a, ys ! b, None],
              lines_z @ [zs ! a, zs ! b, None]))"

text \<open>The \<open>go.Scatter3d\<close> object: its three coordinate sequences and its styling.\<close>

record trace =
  tr_x :: "real option list"
  tr_y :: "real option list"
  tr_z :: "real option list"
  tr_mode :: string
  tr_width :: nat
  tr_color :: string
  tr_name :: string

definition skeleton_trace ::
  "real option list \<Rightarrow> real option list \<Rightarrow> real option list \<Rightarrow> string \<Rightarrow> string
     \<Rightarrow> error + trace" where
  "skeleton_trace xs ys zs name color =
     (case trace_loop xs ys zs CONNECTIONS_3d ([], [], []) of
        Inl e \<Rightarrow> Inl e
      | Inr (lines_x, lines_y, lines_z) \<Rightarrow>
          Inr \<lparr>tr_x = lines_x, tr_y = lines_y, tr_z = lines_z, tr_mode = ''lines'',
               tr_width = 4, tr_color = color, tr_name = name\<rparr>)"

text \<open>
  \<open>compare_poses(actual_json, ideal_json)\<close>: the figure handed to \<open>fig.show()\<close>, with its
  traces in the order of the \<open>add_trace\<close> calls.
\<close>

record figure =
  fig_data :: "trace list"
  fig_title :: string

definition compare_poses :: "(path \<rightharpoonup> lm_record) \<Rightarrow> path \<Rightarrow> path \<Rightarrow> error + figure" where
  "compare_poses records actual_json ideal_json =
     (case load_landmarks records actual_json of
        Inl e \<Rightarrow> Inl e
      | Inr (xs_a, ys_a, zs_a) \<Rightarrow>
          (case load_landmarks records ideal_json of
             Inl e \<Rightarrow> Inl e
           | Inr (xs_i, ys_i, zs_i) \<Rightarrow>
               (case skeleton_trace xs_a ys_a zs_a ''Actual'' ''blue'' of
                  Inl e \<Rightarrow> Inl e
                | Inr actual \<Rightarrow>
                    (case skeleton_trace xs_i ys_i zs_i ''Ideal'' ''green'' of
                       Inl e \<Rightarrow> Inl e
                     | Inr ideal \<Rightarrow>
                         Inr \<lparr>fig_data = [actual, ideal],
                              fig_title = ''Actual vs Ideal Pose''\<rparr>))))"

text \<open>Two record files with the same content, the upright pose.\<close>

definition pose_files :: "path \<rightharpoonup> lm_record" where
  "pose_files = [rec_path ''actual'' \<mapsto> upright, rec_path ''ideal'' \<mapsto> upright]"

section \<open>Properties of the angle helper\<close>

lemma atan2_ge: "- pi \<le> atan2 y x"
proof -
  have l: "- (pi / 2) < arctan (y / x)" by (rule arctan_lbound)
  have pos: "x < 0 \<Longrightarrow> y < 0 \<Longrightarrow> 0 < arctan (y / x)"
    by (simp add: divide_neg_neg)
  have p: "0 < pi" by simp
  show ?thesis
    unfolding atan2_def using l pos p by (auto split: if_splits; linarith)
qed

lemma atan2_le: "atan2 y x \<le> pi"
proof -
  have u: "arctan (y / x) < pi / 2" by (rule arctan_ubound)
  have neg: "x < 0 \<Longrightarrow> 0 \<le> y \<Longrightarrow> arctan (y / x) \<le> 0"
    by (simp add: divide_nonneg_neg)
  have p: "0 < pi" by simp
  show ?thesis
    unfolding atan2_def using u neg p by (auto split: if_splits; linarith)
qed

lemma degrees_atan2_range: "- 180 \<le> degrees (atan2 y x) \<and> degrees (atan2 y x) \<le> 180"
proof -
  have "- pi \<le> atan2 y x" "atan2 y x \<le> pi"
    by (rule atan2_ge, rule atan2_le)
  then have "- 180 * pi \<le> atan2 y x * 180" "atan2 y x * 180 \<le> 180 * pi"
    by simp_all
  then show ?thesis
    using pi_gt_zero by (simp add: degrees_def pos_le_divide_eq pos_divide_le_eq)
qed

lemma angle_nonneg: "0 \<le> angle a b c"
  by (simp add: angle_def Let_def)

text \<open>
  C1. The claim is that \<open>_angle\<close> returns a value in \<open>[0, 180]\<close> for every triple of
  points. With the vertex at (1/2, 1/2), a at (0, 1) and c at (0, 0) the two \<open>atan2\<close>
  values are 135 and -135 degrees, their difference is -270 degrees, the test
  \<open>ang < 180\<close> keeps it and \<open>abs\<close> returns 270: the reflection covers only the
  differences of 180 degrees and more, not those below -180.
\<close>

theorem angle_exceeds_180: "angle (0, 1) (1 / 2, 1 / 2) (0, 0) = 270"
  by (simp add: angle_def atan2_def degrees_def arctan_one arctan_minus Let_def)

text \<open>
  C3. The claim is that swapping the two outer points leaves the angle unchanged. On the
  same three points the difference of the \<open>atan2\<close> values is -270 degrees in one order
  and 270 degrees in the other; only the second is reflected, so the helper returns 270
  for \<open>(a, b, c)\<close> and 90 for \<open>(c, b, a)\<close>.
\<close>

theorem angle_swap_differs:
  "angle (0, 1) (1 / 2, 1 / 2) (0, 0) = 270 \<and> angle (0, 0) (1 / 2, 1 / 2) (0, 1) = 90"
  by (simp add: angle_def atan2_def degrees_def arctan_one arctan_minus Let_def)

section \<open>Properties of the frame sampler\<close>











text \<open>
  C5, as amended. \<open>extract_frames\<close> raises whenever the video file is missing, cannot be
  opened or reports the native rate 0, and also when the target rate \<open>fps\<close> is 0; in each
  of these cases the capture is left with every frame unread, no image has been written
  and no manifest is returned. (The converse is not claimed: these are not the only
  errors of the function.)
\<close>

theorem extract_frames_raises_before_reading:
  assumes "\<not> path_exists v \<or> \<not> is_opened v \<or> cap_fps v = 0 \<or> fps = 0"
  shows "(\<exists>e. fst (extract_frames v output_dir fps overwrite) = Inl e)
         \<and> fst (snd (extract_frames v output_dir fps overwrite)) = stream v
         \<and> (\<forall>p f. Imwrite p f \<notin> set (snd (snd (extract_frames v output_dir fps overwrite))))"
  using assms by (auto simp: extract_frames_def Let_def)

text \<open>A source that reports rate 0: the error is raised with all three frames unread.\<close>

theorem extract_frames_raises_before_reading_witness:
  "fst (extract_frames zero_rate_clip ''frames'' 5 False) = Inl (RuntimeError ''Source FPS reported as 0'')
   \<and> fst (snd (extract_frames zero_rate_clip ''frames'' 5 False)) = [0, 1, 2]
   \<and> snd (snd (extract_frames zero_rate_clip ''frames'' 5 False)) = []"
proof -
  have z: "cap_fps zero_rate_clip = 0" by (simp add: zero_rate_clip_def)
  then have "\<not> path_exists zero_rate_clip \<or> \<not> is_opened zero_rate_clip
               \<or> cap_fps zero_rate_clip = 0 \<or> (5::int) = 0"
    by simp
  from extract_frames_raises_before_reading [OF this, of "''frames''" False]
  show ?thesis
    by (simp add: extract_frames_def zero_rate_clip_def)
qed

text \<open>
  The claim as stated says that the three causes are the only ones; a video that exists,
  opens and reports 30 frames per second still raises when the target rate is 0.
\<close>

theorem extract_frames_raises_on_zero_target:
  "fst (extract_frames clip10 ''frames'' 0 False) = Inl ZeroDivisionError
   \<and> path_exists clip10 \<and> is_opened clip10 \<and> cap_fps clip10 \<noteq> 0"
  by (simp add: extract_frames_def clip10_def)

section \<open>Properties of the feature calculator\<close>

lemma try_angles_bounds:
  assumes "try_angles lm = Some (e, k, t)"
  shows "0 \<le> e \<and> 0 \<le> k \<and> - 180 \<le> t \<and> t \<le> 180"
  using assms degrees_atan2_range
  by (auto simp: try_angles_def Let_def angle_nonneg split: option.splits)

lemma feature_loop_bounds:
  assumes "feature_loop records json_paths rows0 = Inr rows"
    and "\<forall>r \<in> set rows0. 0 \<le> r_elbow_deg r \<and> 0 \<le> r_knee_deg r \<and> - 180 \<le> trunk_deg r \<and> trunk_deg r \<le> 180"
  shows "\<forall>r \<in> set rows. 0 \<le> r_elbow_deg r \<and> 0 \<le> r_knee_deg r \<and> - 180 \<le> trunk_deg r \<and> trunk_deg r \<le> 180"
  using assms
proof (induction json_paths arbitrary: rows0)
  case Nil
  then show ?case by simp
next
  case (Cons jpath rest)
  from Cons.prems(1) obtain lm where lm: "records (path_of jpath) = Some lm"
    by (auto split: option.splits)
  show ?case
  proof (cases "try_angles lm")
    case None
    with Cons.prems lm have "feature_loop records rest rows0 = Inr rows"
      by (auto split: pathlike.splits)
    then show ?thesis using Cons.IH Cons.prems(2) by blast
  next
    case (Some a)
    obtain e k t where a: "a = (e, k, t)" by (cases a) auto
    let ?row = "\<lparr>frame = stem (path_of jpath), r_elbow_deg = e, r_knee_deg = k, trunk_deg = t\<rparr>"
    from Cons.prems(1) lm Some a have run: "feature_loop records rest (rows0 @ [?row]) = Inr rows"
      by simp
    have "0 \<le> e \<and> 0 \<le> k \<and> - 180 \<le> t \<and> t \<le> 180"
      using try_angles_bounds Some a by blast
    with Cons.prems(2) have "\<forall>r \<in> set (rows0 @ [?row]). 0 \<le> r_elbow_deg r \<and> 0 \<le> r_knee_deg r \<and> - 180 \<le> trunk_deg r \<and> trunk_deg r \<le> 180"
      by auto
    with Cons.IH run show ?thesis by blast
  qed
qed

lemma try_angles_upright: "try_angles upright = Some (180, 180, - 90)"
  by (simp add: try_angles_def upright_def pt_def xy_def angle_def atan2_def degrees_def Let_def)

lemma try_angles_no_shoulder: "try_angles no_shoulder = None"
  by (simp add: try_angles_def no_shoulder_def upright_def pt_def)

lemma upright_run:
  "extract_biomechanics [rec_path ''frame_00000'' \<mapsto> upright] [PathObj (rec_path ''frame_00000'')]
       features_csv Map.empty
     = (Inr [upright_row], [features_csv \<mapsto> [upright_row]])"
  by (simp add: extract_biomechanics_def try_angles_upright rec_path_def upright_row_def)

text \<open>
  C2, as amended. In every row that \<open>extract_biomechanics\<close> emits, \<open>r_elbow_deg\<close> and
  \<open>r_knee_deg\<close> are non-negative and \<open>trunk_deg\<close>, the signed angle of the hip-to-shoulder
  line against the horizontal, lies in \<open>[-180, 180]\<close>. (No upper bound is stated for the
  two joint angles, which come from the angle helper.)
\<close>

theorem feature_row_ranges:
  assumes "extract_biomechanics records json_paths csv_out tables = (Inr rows, tables')"
  shows "\<forall>r \<in> set rows. 0 \<le> r_elbow_deg r \<and> 0 \<le> r_knee_deg r
            \<and> - 180 \<le> trunk_deg r \<and> trunk_deg r \<le> 180"
proof -
  from assms have "feature_loop records json_paths [] = Inr rows"
    by (auto simp: extract_biomechanics_def split: sum.splits)
  then show ?thesis
    using feature_loop_bounds [of records json_paths "[]" rows] by simp
qed

text \<open>The upright pose: one row, with both joint angles 180 and the trunk angle -90.\<close>

theorem feature_row_ranges_witness:
  "0 \<le> r_elbow_deg upright_row \<and> 0 \<le> r_knee_deg upright_row
     \<and> - 180 \<le> trunk_deg upright_row \<and> trunk_deg upright_row \<le> 180"
  using feature_row_ranges [OF upright_run] by simp

text \<open>
  The claim as stated puts \<open>trunk_deg\<close> in \<open>[0, 180]\<close>. For a person standing upright the
  shoulder is above the hip, its \<open>y\<close> is the smaller one in image coordinates, and the
  emitted \<open>trunk_deg\<close> is -90.
\<close>

theorem trunk_deg_negative:
  "extract_biomechanics [rec_path ''frame_00000'' \<mapsto> upright] [PathObj (rec_path ''frame_00000'')]
       features_csv Map.empty
     = (Inr [upright_row], [features_csv \<mapsto> [upright_row]])
   \<and> trunk_deg upright_row = - 90 \<and> \<not> 0 \<le> trunk_deg upright_row"
  using upright_run by (simp add: upright_row_def)

text \<open>
  C6. The claim is that a record lacking a required landmark index is skipped without
  raising. When the path of such a record is given as a \<open>str\<close>, which the signature
  \<open>Sequence[str | Path]\<close> allows, the \<open>except KeyError\<close> branch evaluates \<open>jpath.name\<close>
  for its log line and raises \<open>AttributeError\<close>; no table is written.
\<close>

theorem str_path_missing_keypoint_raises:
  "extract_biomechanics [rec_path ''frame_00000'' \<mapsto> no_shoulder] [Str (rec_path ''frame_00000'')]
       features_csv Map.empty
     = (Inl AttributeError, Map.empty)"
  by (simp add: extract_biomechanics_def try_angles_no_shoulder)

section \<open>Properties of the landmark extractor and of the pipeline counts\<close>














section \<open>Properties of the overlay renderer\<close>






lemma render_loop_all:
  "\<forall>(f, j) \<in> set pairs. imread f \<noteq> None \<and> records j \<noteq> None \<Longrightarrow>
   \<exists>out. render_loop imread records w h n idx pairs trail video = (Inr (), video @ out)
         \<and> length out = length pairs"
proof (induction pairs arbitrary: idx trail video)
  case Nil
  then show ?case by simp
next
  case (Cons p pairs)
  obtain f j where p: "p = (f, j)" by (cases p)
  from Cons.prems p obtain img lm where a: "imread f = Some img" "records j = Some lm"
    by auto
  obtain ops trail' where r: "render_frame w h idx n lm trail = (ops, trail')"
    by (cases "render_frame w h idx n lm trail")
  have step: "render_loop imread records w h n idx (p # pairs) trail video
                = render_loop imread records w h n (idx + 1) pairs trail' (video @ [(img, ops)])"
    by (simp add: p a r)
  from Cons.prems have "\<forall>(f, j) \<in> set pairs. imread f \<noteq> None \<and> records j \<noteq> None"
    by simp
  from Cons.IH [OF this, of "idx + 1" trail' "video @ [(img, ops)]"]
  obtain out where o: "render_loop imread records w h n (idx + 1) pairs trail' (video @ [(img, ops)])
                         = (Inr (), (video @ [(img, ops)]) @ out)" "length out = length pairs"
    by blast
  show ?case
    unfolding step using o by (intro exI [of _ "(img, ops) # out"]) simp
qed












text \<open>
  C10, as amended. For every call of \<open>render_skeleton_video\<close> with a non-empty frame
  manifest in which the first image is readable and, in every pair of
  \<open>zip(frame_paths, json_paths)\<close>, the image is readable and the record file can be
  loaded, the call returns normally and the number of frames handed to the video writer
  is the length of the shorter manifest: the longer one is truncated without an error.
\<close>

theorem render_truncates_to_shorter:
  assumes "frame_paths \<noteq> []" and "imread (hd frame_paths) \<noteq> None"
    and "\<forall>(f, j)\<in>set (zip frame_paths json_paths). imread f \<noteq> None \<and> records j \<noteq> None"
  shows "\<exists>video. render_skeleton_video imread records frame_paths json_paths = (Inr (), video)
           \<and> length video = min (length frame_paths) (length json_paths)"
proof -
  from assms(2) obtain sample where s: "imread (hd frame_paths) = Some sample" by auto
  from render_loop_all [OF assms(3), of "img_w sample" "img_h sample" "length frame_paths" 0 "[]" "[]"]
  obtain out where "render_loop imread records (img_w sample) (img_h sample) (length frame_paths) 0
                      (zip frame_paths json_paths) [] [] = (Inr (), out)"
      "length out = length (zip frame_paths json_paths)"
    by auto
  moreover from assms(1) s have "render_skeleton_video imread records frame_paths json_paths
      = render_loop imread records (img_w sample) (img_h sample) (length frame_paths) 0
                      (zip frame_paths json_paths) [] []"
    by (cases frame_paths) (simp_all add: render_skeleton_video_def)
  ultimately show ?thesis by simp
qed

text \<open>Two frames and one record, all readable: one frame is written.\<close>

theorem render_truncates_to_shorter_witness:
  "\<exists>video. render_skeleton_video imread_blank records2 two_frames one_record = (Inr (), video)
     \<and> length video = 1"
  using render_truncates_to_shorter [of two_frames imread_blank one_record records2]
  by (simp add: two_frames_def imread_blank_def one_record_def records2_def rec_path_def)

text \<open>
  The claim as stated asks for a non-empty frame manifest only. With two frames, one record
  and an unreadable first image, \<open>sample.shape\<close> raises and no frame is written, while the
  shorter manifest has length 1.
\<close>

theorem render_unreadable_first_frame:
  "render_skeleton_video imread_none records2 two_frames one_record = (Inl AttributeError, [])
   \<and> min (length two_frames) (length one_record) = 1"
  by (simp add: render_skeleton_video_def imread_none_def two_frames_def one_record_def)

section \<open>Properties of the pose viewer\<close>

lemma trace_loop_total:
  "length xs = 33 \<Longrightarrow> length ys = 33 \<Longrightarrow> length zs = 33 \<Longrightarrow>
   \<forall>(a, b)\<in>set conns. a < 33 \<and> b < 33 \<Longrightarrow>
   \<exists>out. trace_loop xs ys zs conns acc = Inr out"
proof (induction conns arbitrary: acc)
  case Nil
  show ?case by (cases acc) auto
next
  case (Cons p conns)
  obtain a b where p: "p = (a, b)" by (cases p)
  obtain lx ly lz where acc: "acc = (lx, ly, lz)" by (cases acc)
  from Cons.prems p have ab: "a < 33" "b < 33"
    and rest: "\<forall>(a, b)\<in>set conns. a < 33 \<and> b < 33" by auto
  note ih = Cons.IH [OF Cons.prems(1-3) rest]
  show ?case
    unfolding p acc
    using ab Cons.prems(1-3) ih [of "(lx, ly, lz)"]
      ih [of "(lx @ [xs ! a, xs ! b, None], ly @ [ys ! a, ys ! b, None], lz @ [zs ! a, zs ! b, None])"]
    by simp
qed

lemma CONNECTIONS_3d_bound: "\<forall>(a, b)\<in>set CONNECTIONS_3d. a < 33 \<and> b < 33"
  by (simp add: CONNECTIONS_3d_def)

lemma skeleton_trace_total:
  "length xs = 33 \<Longrightarrow> length ys = 33 \<Longrightarrow> length zs = 33 \<Longrightarrow>
   \<exists>lx ly lz. skeleton_trace xs ys zs name color
      = Inr \<lparr>tr_x = lx, tr_y = ly, tr_z = lz, tr_mode = ''lines'',
             tr_width = 4, tr_color = color, tr_name = name\<rparr>
      \<and> trace_loop xs ys zs CONNECTIONS_3d ([], [], []) = Inr (lx, ly, lz)"
proof -
  assume l: "length xs = 33" "length ys = 33" "length zs = 33"
  from trace_loop_total [OF l CONNECTIONS_3d_bound, of "([], [], [])"]
  obtain out where o: "trace_loop xs ys zs CONNECTIONS_3d ([], [], []) = Inr out" by blast
  obtain lx ly lz where "out = (lx, ly, lz)" by (cases out)
  with o show ?thesis by (simp add: skeleton_trace_def)
qed


lemma load_landmarks_lengths:
  "records jpath = Some r \<Longrightarrow>
   \<exists>xs ys zs. load_landmarks records jpath = Inr (xs, ys, zs)
      \<and> length xs = 33 \<and> length ys = 33 \<and> length zs = 33"
  by (simp add: load_landmarks_def)

lemma upright_traces:
  "map tr_y (fig_data (projr (compare_poses pose_files (rec_path ''actual'') (rec_path ''ideal''))))
     = [[Some (- (1 / 5)), Some (- (2 / 5)), None, Some (- (2 / 5)),
         Some (- (3 / 5)), None, Some (- (1 / 5)), Some (- (1 / 2)),
         None, Some (- (1 / 2)), Some (- (7 / 10)), None,
         Some (- (7 / 10)), Some (- (9 / 10)), None],
        [Some (- (1 / 5)), Some (- (2 / 5)), None, Some (- (2 / 5)),
         Some (- (3 / 5)), None, Some (- (1 / 5)), Some (- (1 / 2)),
         None, Some (- (1 / 2)), Some (- (7 / 10)), None,
         Some (- (7 / 10)), Some (- (9 / 10)), None]]"
  by (simp add: compare_poses_def load_landmarks_def skeleton_trace_def CONNECTIONS_3d_def
        pose_files_def rec_path_def upright_def upt_rec_numeral)

text \<open>
  C9. When the two record files given to \<open>compare_poses\<close> hold the same landmark record
  (in particular when the same file is given twice), the call returns normally with a
  figure of exactly two traces, \<open>Actual\<close> first and \<open>Ideal\<close> second, whose x, y and z
  coordinate sequences are equal.
\<close>

theorem compare_poses_coincide:
  assumes a: "records actual_json = Some r" and i: "records ideal_json = Some r"
  shows "\<exists>actual ideal.
           compare_poses records actual_json ideal_json
             = Inr \<lparr>fig_data = [actual, ideal], fig_title = ''Actual vs Ideal Pose''\<rparr>
           \<and> tr_x actual = tr_x ideal \<and> tr_y actual = tr_y ideal \<and> tr_z actual = tr_z ideal
           \<and> tr_name actual = ''Actual'' \<and> tr_name ideal = ''Ideal''"
proof -
  from a have "\<exists>xs ys zs. load_landmarks records actual_json = Inr (xs, ys, zs)
      \<and> length xs = 33 \<and> length ys = 33 \<and> length zs = 33"
    by (rule load_landmarks_lengths)
  then obtain xs ys zs where
    la: "load_landmarks records actual_json = Inr (xs, ys, zs)"
    and len: "length xs = 33" "length ys = 33" "length zs = 33"
    by blast
  from a i have li: "load_landmarks records ideal_json = Inr (xs, ys, zs)"
    using la by (simp add: load_landmarks_def)
  from skeleton_trace_total [OF len, of "''Actual''" "''blue''"] obtain lx ly lz where
    ta: "skeleton_trace xs ys zs ''Actual'' ''blue''
           = Inr \<lparr>tr_x = lx, tr_y = ly, tr_z = lz, tr_mode = ''lines'',
                  tr_width = 4, tr_color = ''blue'', tr_name = ''Actual''\<rparr>"
    and tl: "trace_loop xs ys zs CONNECTIONS_3d ([], [], []) = Inr (lx, ly, lz)"
    by blast
  from tl have ti: "skeleton_trace xs ys zs ''Ideal'' ''green''
           = Inr \<lparr>tr_x = lx, tr_y = ly, tr_z = lz, tr_mode = ''lines'',
                  tr_width = 4, tr_color = ''green'', tr_name = ''Ideal''\<rparr>"
    by (simp add: skeleton_trace_def)
  have "compare_poses records actual_json ideal_json
          = Inr \<lparr>fig_data = [\<lparr>tr_x = lx, tr_y = ly, tr_z = lz, tr_mode = ''lines'',
                                tr_width = 4, tr_color = ''blue'', tr_name = ''Actual''\<rparr>,
                               \<lparr>tr_x = lx, tr_y = ly, tr_z = lz, tr_mode = ''lines'',
                                tr_width = 4, tr_color = ''green'', tr_name = ''Ideal''\<rparr>],
                   fig_title = ''Actual vs Ideal Pose''\<rparr>"
    by (simp add: compare_poses_def la li ta ti)
  then show ?thesis by simp
qed

text \<open>
  The upright pose in both files: the two traces coincide and hold the five segments
  whose two ends are in the record.
\<close>

theorem compare_poses_coincide_witness:
  "\<exists>actual ideal.
     compare_poses pose_files (rec_path ''actual'') (rec_path ''ideal'')
       = Inr \<lparr>fig_data = [actual, ideal], fig_title = ''Actual vs Ideal Pose''\<rparr>
     \<and> tr_x actual = tr_x ideal \<and> tr_y actual = tr_y ideal \<and> tr_z actual = tr_z ideal
     \<and> tr_name actual = ''Actual'' \<and> tr_name ideal = ''Ideal''
     \<and> tr_y ideal = [Some (- (1 / 5)), Some (- (2 / 5)), None, Some (- (2 / 5)),
         Some (- (3 / 5)), None, Some (- (1 / 5)), Some (- (1 / 2)),
         None, Some (- (1 / 2)), Some (- (7 / 10)), None,
         Some (- (7 / 10)), Some (- (9 / 10)), None]"
proof -
  from compare_poses_coincide [of pose_files "rec_path ''actual''" upright "rec_path ''ideal''"]
  obtain actual ideal where
    c: "compare_poses pose_files (rec_path ''actual'') (rec_path ''ideal'')
          = Inr \<lparr>fig_data = [actual, ideal], fig_title = ''Actual vs Ideal Pose''\<rparr>
        \<and> tr_x actual = tr_x ideal \<and> tr_y actual = tr_y ideal \<and> tr_z actual = tr_z ideal
        \<and> tr_name actual = ''Actual'' \<and> tr_name ideal = ''Ideal''"
    by (auto simp: pose_files_def rec_path_def)
  from c upright_traces have
    "tr_y ideal = [Some (- (1 / 5)), Some (- (2 / 5)), None, Some (- (2 / 5)),
         Some (- (3 / 5)), None, Some (- (1 / 5)), Some (- (1 / 2)),
         None, Some (- (1 / 2)), Some (- (7 / 10)), None,
         Some (- (7 / 10)), Some (- (9 / 10)), None]"
    by simp
  with c show ?thesis by blast
qed

end
